theory Spec2Isabelle
  imports Main "HOL-Library.Word"
begin

unbundle bit_operations_syntax

section \<open>Platform constants\<close>

text \<open>
  The library is a header over the Berkeley sockets interface. The system headers
  that \<^verbatim>\<open>netstack.h\<close> includes are not part of the repository, so the constants the
  wrappers read from them are parameters of the model, collected in one record.
  \<^verbatim>\<open>AF_INET\<close> and \<^verbatim>\<open>AF_INET6\<close> are address family values: they are typed as the
  16-bit \<^verbatim>\<open>sa_family\<close> field that holds them. \<^verbatim>\<open>host_big_endian\<close> is the byte order
  of the host, which decides what \<^verbatim>\<open>htons\<close> does.
\<close>

record platform =
  AF_INET :: "16 word"
  AF_INET6 :: "16 word"
  host_big_endian :: bool
  CHAR_MAX :: nat
  SOCKET_ERROR :: int
  MSG_OOB :: int
  MSG_PEEK :: int
  MSG_DONTROUTE :: int

text \<open>The values of a little-endian Linux host, used to run the model on concrete inputs.\<close>

definition linux_le :: platform where
  "linux_le = \<lparr>AF_INET = 2, AF_INET6 = 10, host_big_endian = False, CHAR_MAX = 127,
     SOCKET_ERROR = - 1, MSG_OOB = 1, MSG_PEEK = 2, MSG_DONTROUTE = 4\<rparr>"

section \<open>address.hpp: AddressFamily and Address\<close>

text \<open>
  \<^verbatim>\<open>enum class AddressFamily { INET = AF_INET, INET6 = AF_INET6 }\<close> has underlying
  type \<^verbatim>\<open>int\<close>, and the constructor's \<^verbatim>\<open>switch\<close> has a \<^verbatim>\<open>default\<close> branch for
  every other value, so a family is an integer and the two enumerators are named values.
\<close>

type_synonym AddressFamily = int

definition INET :: "platform \<Rightarrow> AddressFamily" where
  "INET p = uint (AF_INET p)"

definition INET6 :: "platform \<Rightarrow> AddressFamily" where
  "INET6 p = uint (AF_INET6 p)"

subsection \<open>The address storage\<close>

text \<open>
  \<^verbatim>\<open>sockaddr_storage\<close> is a block of 128 bytes that the constructor views as
  \<^verbatim>\<open>sockaddr\<close>, \<^verbatim>\<open>sockaddr_in\<close> and \<^verbatim>\<open>sockaddr_in6\<close> through pointer casts. The three
  views share the bytes, so the storage is a byte list and every field is an offset
  into it (the layout of Linux and of Winsock): \<^verbatim>\<open>sa_family\<close> at 0, the port at 2, the
  IPv4 address at 4 (4 bytes), the IPv6 address at 8 (16 bytes). \<open>store\<close> writes bytes
  at an offset and \<open>load\<close> reads them; the writes of the constructor are of 2, 4
  and 16 bytes, well inside the block, and \<open>store\<close> never changes its size.
\<close>

type_synonym byte = "8 word"

type_synonym sockaddr_storage = "byte list"

definition sizeof_sockaddr_storage :: nat where
  "sizeof_sockaddr_storage = 128"

definition store :: "nat \<Rightarrow> byte list \<Rightarrow> sockaddr_storage \<Rightarrow> sockaddr_storage" where
  "store off bs mem = take (length mem) (take off mem @ bs @ drop (off + length bs) mem)"

definition load :: "nat \<Rightarrow> nat \<Rightarrow> sockaddr_storage \<Rightarrow> byte list" where
  "load off n mem = take n (drop off mem)"

definition high_byte :: "16 word \<Rightarrow> byte" where
  "high_byte x = ucast (drop_bit 8 x)"

definition low_byte :: "16 word \<Rightarrow> byte" where
  "low_byte x = ucast x"

text \<open>A 16-bit field in memory, in the byte order of the host.\<close>

definition bytes_of_u16 :: "platform \<Rightarrow> 16 word \<Rightarrow> byte list" where
  "bytes_of_u16 p x =
     (if host_big_endian p then [high_byte x, low_byte x] else [low_byte x, high_byte x])"

definition u16_of_bytes :: "platform \<Rightarrow> byte list \<Rightarrow> 16 word" where
  "u16_of_bytes p bs =
     (case bs of
        [b0, b1] \<Rightarrow>
          (if host_big_endian p then push_bit 8 (ucast b0) OR ucast b1
           else push_bit 8 (ucast b1) OR ucast b0)
      | _ \<Rightarrow> 0)"

definition htons :: "platform \<Rightarrow> 16 word \<Rightarrow> 16 word" where
  "htons p x = (if host_big_endian p then x else push_bit 8 x OR drop_bit 8 x)"

definition sa_family :: "platform \<Rightarrow> sockaddr_storage \<Rightarrow> 16 word" where
  "sa_family p mem = u16_of_bytes p (load 0 2 mem)"

definition set_sa_family :: "platform \<Rightarrow> 16 word \<Rightarrow> sockaddr_storage \<Rightarrow> sockaddr_storage" where
  "set_sa_family p v mem = store 0 (bytes_of_u16 p v) mem"

definition sin_port :: "platform \<Rightarrow> sockaddr_storage \<Rightarrow> 16 word" where
  "sin_port p mem = u16_of_bytes p (load 2 2 mem)"

definition set_sin_port :: "platform \<Rightarrow> 16 word \<Rightarrow> sockaddr_storage \<Rightarrow> sockaddr_storage" where
  "set_sin_port p v mem = store 2 (bytes_of_u16 p v) mem"

definition sin_addr :: "sockaddr_storage \<Rightarrow> byte list" where
  "sin_addr mem = load 4 4 mem"

definition sin6_port :: "platform \<Rightarrow> sockaddr_storage \<Rightarrow> 16 word" where
  "sin6_port p mem = u16_of_bytes p (load 2 2 mem)"

definition set_sin6_port :: "platform \<Rightarrow> 16 word \<Rightarrow> sockaddr_storage \<Rightarrow> sockaddr_storage" where
  "set_sin6_port p v mem = store 2 (bytes_of_u16 p v) mem"

definition sin6_addr :: "sockaddr_storage \<Rightarrow> byte list" where
  "sin6_addr mem = load 8 16 mem"

subsection \<open>The class Address\<close>

text \<open>
  The members \<^verbatim>\<open>state_\<close>, \<^verbatim>\<open>address_\<close> and \<^verbatim>\<open>length_\<close>; a field name cannot end
  in an underscore here, so each carries the suffix \<open>fld\<close>.
\<close>

record Address =
  state_fld :: bool
  address_fld :: sockaddr_storage
  length_fld :: nat

text \<open>
  \<^verbatim>\<open>inet_pton(af, src, dst)\<close> belongs to the C library. The model takes it as a
  function from the family and the text to the returned status and the bytes it wrote
  at \<^verbatim>\<open>dst\<close>.
\<close>

type_synonym inet_pton_fn = "int \<Rightarrow> string \<Rightarrow> int \<times> byte list"

text \<open>
  A constructor assigns fields of an object whose storage held arbitrary values before:
  \<open>raw\<close> is that object. The parameterized constructor follows the source line by
  line: the member initializer \<^verbatim>\<open>state_(true)\<close>, \<^verbatim>\<open>address_ = {}\<close>, the store into
  \<^verbatim>\<open>sa_family\<close>, the \<^verbatim>\<open>switch\<close>, and \<^verbatim>\<open>length_ = sizeof(address_)\<close>. The family handed
  to \<^verbatim>\<open>inet_pton\<close> is the value read back from \<^verbatim>\<open>sockAddr->sa_family\<close>.
\<close>

definition Address :: "platform \<Rightarrow> inet_pton_fn \<Rightarrow> AddressFamily \<Rightarrow> string \<Rightarrow> 16 word
    \<Rightarrow> Address \<Rightarrow> Address" where
  "Address p inet_pton family ip port raw =
     (let a0 = raw\<lparr>state_fld := True\<rparr>;
          a1 = a0\<lparr>address_fld := replicate sizeof_sockaddr_storage 0\<rparr>;
          a2 = a1\<lparr>address_fld := set_sa_family p (word_of_int family) (address_fld a1)\<rparr>;
          a3 =
            (if family = INET p then
               (let (status, dst) = inet_pton (uint (sa_family p (address_fld a2))) ip;
                    a = a2\<lparr>address_fld := store 4 dst (address_fld a2)\<rparr>
                in if status = 0 \<or> status = - 1 then a\<lparr>state_fld := False\<rparr>
                   else a\<lparr>address_fld := set_sin_port p (htons p port) (address_fld a)\<rparr>)
             else if family = INET6 p then
               (let (status, dst) = inet_pton (uint (sa_family p (address_fld a2))) ip;
                    a = a2\<lparr>address_fld := store 8 dst (address_fld a2)\<rparr>
                in if status = 0 \<or> status = - 1 then a\<lparr>state_fld := False\<rparr>
                   else a\<lparr>address_fld := set_sin6_port p (htons p port) (address_fld a)\<rparr>)
             else a2\<lparr>state_fld := False\<rparr>)
      in a3\<lparr>length_fld := sizeof_sockaddr_storage\<rparr>)"

text \<open>The default constructor: \<^verbatim>\<open>address_ = {}; length_ = {};\<close> and nothing else.\<close>

definition Address_default :: "Address \<Rightarrow> Address" where
  "Address_default raw =
     (let a1 = raw\<lparr>address_fld := replicate sizeof_sockaddr_storage 0\<rparr>
      in a1\<lparr>length_fld := 0\<rparr>)"

definition operator_bool :: "Address \<Rightarrow> bool" where
  "operator_bool a = state_fld a"

definition name :: "Address \<Rightarrow> sockaddr_storage" where
  "name a = address_fld a"

definition size :: "Address \<Rightarrow> nat" where
  "size a = length_fld a"

text \<open>
  \<^verbatim>\<open>name()\<close> and \<^verbatim>\<open>operator sockaddr*()\<close> return the address of \<^verbatim>\<open>address_\<close>, and
  \<^verbatim>\<open>ptr()\<close> and \<^verbatim>\<open>operator socklen_t*()\<close> return \<^verbatim>\<open>&length_\<close>: the object hands out
  pointers into itself for a socket call to write through. \<open>name_store\<close> and
  \<open>ptr_store\<close> are a write through each pointer.
\<close>

definition name_store :: "Address \<Rightarrow> sockaddr_storage \<Rightarrow> Address" where
  "name_store a mem = a\<lparr>address_fld := mem\<rparr>"

definition ptr_store :: "Address \<Rightarrow> nat \<Rightarrow> Address" where
  "ptr_store a n = a\<lparr>length_fld := n\<rparr>"

subsection \<open>A stand-in for the C library's parser\<close>

text \<open>
  To run the constructor on concrete literals the parameter \<open>inet_pton\<close> needs a
  value. \<open>inet_pton4\<close> reads dotted-decimal IPv4 text the way POSIX describes it (four
  decimal numbers of one to three digits, each at most 255, no leading zero);
  \<open>sample_inet_pton\<close> uses it for family 2, knows the two IPv6 literals \<^verbatim>\<open>::\<close> and
  \<^verbatim>\<open>::1\<close> for family 10, rejects every other text, and answers -1 for any other family.
\<close>

definition digit_of :: "char \<Rightarrow> nat option" where
  "digit_of c =
     (let n = (of_char c :: nat) in if 48 \<le> n \<and> n \<le> 57 then Some (n - 48) else None)"

fun decimal :: "string \<Rightarrow> nat \<Rightarrow> nat option" where
  "decimal [] acc = Some acc"
| "decimal (c # cs) acc =
     (case digit_of c of None \<Rightarrow> None | Some d \<Rightarrow> decimal cs (10 * acc + d))"

definition parse_octet :: "string \<Rightarrow> nat option" where
  "parse_octet s =
     (if s = [] \<or> 3 < length s \<or> (1 < length s \<and> hd s = CHR ''0'') then None
      else (case decimal s 0 of
              None \<Rightarrow> None
            | Some v \<Rightarrow> if v \<le> 255 then Some v else None))"

fun fields :: "char \<Rightarrow> string \<Rightarrow> string list" where
  "fields sep [] = [[]]"
| "fields sep (c # cs) =
     (if c = sep then [] # fields sep cs
      else (case fields sep cs of [] \<Rightarrow> [[c]] | f # fs \<Rightarrow> (c # f) # fs))"

definition inet_pton4 :: "string \<Rightarrow> int \<times> byte list" where
  "inet_pton4 src =
     (case map parse_octet (fields CHR ''.'' src) of
        [Some a, Some b, Some c, Some d] \<Rightarrow> (1, [of_nat a, of_nat b, of_nat c, of_nat d])
      | _ \<Rightarrow> (0, []))"

definition sample_inet_pton :: inet_pton_fn where
  "sample_inet_pton af src =
     (if af = 2 then inet_pton4 src
      else if af = 10 then
        (if src = ''::'' then (1, replicate 16 0)
         else if src = ''::1'' then (1, replicate 15 0 @ [1])
         else (0, []))
      else (- 1, []))"

text \<open>An object's storage before construction, with the flag set, for concrete runs.\<close>

definition raw_object :: Address where
  "raw_object = \<lparr>state_fld = True, address_fld = [], length_fld = 7\<rparr>"

section \<open>socket.hpp: the enumerations\<close>

text \<open>
  The scoped enumerations share enumerator names (\<^verbatim>\<open>ReceiveFlags::NONE\<close>,
  \<^verbatim>\<open>SendFlags::NONE\<close>), so each constructor carries its enumeration's name. The
  conversion functions are the casts \<^verbatim>\<open>(int)flags\<close>; \<^verbatim>\<open>WAITALL\<close> is the literal 3 of
  the source.
\<close>

datatype ReceiveFlags = ReceiveFlags_NONE | ReceiveFlags_OOB | ReceiveFlags_PEEK | ReceiveFlags_WAITALL

datatype SendFlags = SendFlags_NONE | SendFlags_DONTROUTE | SendFlags_OOB

datatype ShutdownFlags = RECEIVE | SEND | BOTH

definition int_of_ReceiveFlags :: "platform \<Rightarrow> ReceiveFlags \<Rightarrow> int" where
  "int_of_ReceiveFlags p f =
     (case f of
        ReceiveFlags_NONE \<Rightarrow> 0
      | ReceiveFlags_OOB \<Rightarrow> MSG_OOB p
      | ReceiveFlags_PEEK \<Rightarrow> MSG_PEEK p
      | ReceiveFlags_WAITALL \<Rightarrow> 3)"

definition int_of_SendFlags :: "platform \<Rightarrow> SendFlags \<Rightarrow> int" where
  "int_of_SendFlags p f =
     (case f of
        SendFlags_NONE \<Rightarrow> 0
      | SendFlags_DONTROUTE \<Rightarrow> MSG_DONTROUTE p
      | SendFlags_OOB \<Rightarrow> MSG_OOB p)"

definition int_of_ShutdownFlags :: "ShutdownFlags \<Rightarrow> int" where
  "int_of_ShutdownFlags f = (case f of RECEIVE \<Rightarrow> 0 | SEND \<Rightarrow> 1 | BOTH \<Rightarrow> 2)"

section \<open>socket.hpp: the class Socket\<close>

subsection \<open>The operating system's calls\<close>

text \<open>
  Every member function forwards to one call of the operating system. A call acts on
  the state of the world outside the program, of an arbitrary type \<open>'w\<close>, and is a
  parameter of the wrapper that uses it. A call that transfers data can block for
  ever: it then has no result, \<open>None\<close>. A buffer passed by pointer is passed as its
  contents, and a call that writes into it returns the new contents beside its status.
  The status is taken at the type \<^verbatim>\<open>int\<close> in which every wrapper stores it: Winsock
  returns \<^verbatim>\<open>int\<close>, and the \<^verbatim>\<open>ssize_t\<close> of POSIX is -1 or a count of bytes no greater
  than the length asked for.
\<close>

type_synonym SOCKET = int

type_synonym 'w recv_fn =
  "SOCKET \<Rightarrow> string \<Rightarrow> int \<Rightarrow> int \<Rightarrow> 'w \<Rightarrow> ((int \<times> string) \<times> 'w) option"

type_synonym 'w recvfrom_fn =
  "SOCKET \<Rightarrow> string \<Rightarrow> nat \<Rightarrow> int \<Rightarrow> sockaddr_storage option \<Rightarrow> nat option \<Rightarrow> 'w
    \<Rightarrow> ((int \<times> string \<times> sockaddr_storage option \<times> nat option) \<times> 'w) option"

type_synonym 'w send_fn =
  "SOCKET \<Rightarrow> string \<Rightarrow> int \<Rightarrow> int \<Rightarrow> 'w \<Rightarrow> (int \<times> 'w) option"

type_synonym 'w sendto_fn =
  "SOCKET \<Rightarrow> string \<Rightarrow> int \<Rightarrow> int \<Rightarrow> sockaddr_storage option \<Rightarrow> nat \<Rightarrow> 'w
    \<Rightarrow> (int \<times> 'w) option"

type_synonym 'w shutdown_fn = "SOCKET \<Rightarrow> int \<Rightarrow> 'w \<Rightarrow> int \<times> 'w"

type_synonym 'w close_fn = "SOCKET \<Rightarrow> 'w \<Rightarrow> int \<times> 'w"

type_synonym 'w socket_fn = "int \<Rightarrow> int \<Rightarrow> int \<Rightarrow> 'w \<Rightarrow> SOCKET \<times> 'w"

subsection \<open>netstack.h\<close>

text \<open>
  \<^verbatim>\<open>nsCloseSocket\<close> calls \<^verbatim>\<open>closesocket\<close> under \<^verbatim>\<open>_WIN32\<close> and \<^verbatim>\<open>close\<close> otherwise, and
  drops the result; \<open>close\<close> is the call of the platform. \<^verbatim>\<open>nsIsValidSocket\<close> is the
  POSIX branch.
\<close>

definition nsCloseSocket :: "'w close_fn \<Rightarrow> SOCKET \<Rightarrow> 'w \<Rightarrow> 'w" where
  "nsCloseSocket close socket w = snd (close socket w)"

definition nsIsValidSocket :: "SOCKET \<Rightarrow> bool" where
  "nsIsValidSocket socket = (socket \<ge> 0)"

subsection \<open>Construction, copy and destruction\<close>

text \<open>The member \<^verbatim>\<open>_socket\<close>.\<close>

record Socket =
  socket_fld :: SOCKET

definition Socket_open :: "'w socket_fn \<Rightarrow> int \<Rightarrow> int \<Rightarrow> int \<Rightarrow> 'w \<Rightarrow> Socket \<times> 'w" where
  "Socket_open socket af type protocol w =
     (let (fd, w') = socket af type protocol w in (\<lparr>socket_fld = fd\<rparr>, w'))"

definition Socket_wrap :: "SOCKET \<Rightarrow> Socket" where
  "Socket_wrap socket = \<lparr>socket_fld = socket\<rparr>"

text \<open>
  The class deletes its default constructor only. It declares no copy constructor, no
  copy assignment and no move operation, so the compiler supplies the memberwise copy:
  \<^verbatim>\<open>Socket b = a;\<close> compiles and gives \<open>b\<close> the descriptor of \<open>a\<close>.
\<close>

definition Socket_copy :: "Socket \<Rightarrow> Socket" where
  "Socket_copy other = \<lparr>socket_fld = socket_fld other\<rparr>"

text \<open>The destructor: \<^verbatim>\<open>nsCloseSocket(_socket)\<close>, with no test of any kind.\<close>

definition Socket_destroy :: "'w close_fn \<Rightarrow> Socket \<Rightarrow> 'w \<Rightarrow> 'w" where
  "Socket_destroy close s w = nsCloseSocket close (socket_fld s) w"

subsection \<open>The forwarding members\<close>

text \<open>
  C++ overloads \<^verbatim>\<open>Receive\<close> and \<^verbatim>\<open>Send\<close>; the overload on \<^verbatim>\<open>char*\<close> has the suffix
  \<open>ptr\<close> and the one on \<^verbatim>\<open>std::string\<close> the suffix \<open>str\<close>.
\<close>

definition Receive_ptr :: "'w recv_fn \<Rightarrow> Socket \<Rightarrow> string \<Rightarrow> int \<Rightarrow> int \<Rightarrow> 'w
    \<Rightarrow> ((int \<times> string) \<times> 'w) option" where
  "Receive_ptr recv s buffer len flags w = recv (socket_fld s) buffer len flags w"

definition ReceiveFrom_ptr :: "'w recvfrom_fn \<Rightarrow> Socket \<Rightarrow> string \<Rightarrow> nat \<Rightarrow> int
    \<Rightarrow> sockaddr_storage option \<Rightarrow> nat option \<Rightarrow> 'w
    \<Rightarrow> ((int \<times> string \<times> sockaddr_storage option \<times> nat option) \<times> 'w) option" where
  "ReceiveFrom_ptr recvfrom s buffer len flags from fromLength w =
     recvfrom (socket_fld s) buffer len flags from fromLength w"

text \<open>
  The call \<^verbatim>\<open>s.ReceiveFrom(buffer, length, flags, a.name(), a.ptr())\<close>, the use the two
  pointers of an Address are made for: the operating system reads the capacity from
  \<^verbatim>\<open>*a.ptr()\<close>, and what it wrote at the two pointers is stored back into the object.
\<close>

definition ReceiveFrom_into :: "'w recvfrom_fn \<Rightarrow> Socket \<Rightarrow> string \<Rightarrow> nat \<Rightarrow> int
    \<Rightarrow> Address \<Rightarrow> 'w \<Rightarrow> ((int \<times> string \<times> Address) \<times> 'w) option" where
  "ReceiveFrom_into recvfrom s buffer len flags a w =
     (case ReceiveFrom_ptr recvfrom s buffer len flags (Some (name a)) (Some (size a)) w of
        None \<Rightarrow> None
      | Some ((status, buffer', from', fromLength'), w') \<Rightarrow>
          Some ((status, buffer',
                 ptr_store (name_store a (case from' of None \<Rightarrow> name a | Some mem \<Rightarrow> mem))
                   (case fromLength' of None \<Rightarrow> size a | Some n \<Rightarrow> n)), w'))"

definition Send_ptr :: "'w send_fn \<Rightarrow> Socket \<Rightarrow> string \<Rightarrow> int \<Rightarrow> int \<Rightarrow> 'w
    \<Rightarrow> (int \<times> 'w) option" where
  "Send_ptr send s buffer len flags w = send (socket_fld s) buffer len flags w"

definition Send_str :: "platform \<Rightarrow> 'w send_fn \<Rightarrow> Socket \<Rightarrow> string \<Rightarrow> SendFlags \<Rightarrow> 'w
    \<Rightarrow> (int \<times> 'w) option" where
  "Send_str p send s buffer flags w =
     Send_ptr send s buffer (int (length buffer)) (int_of_SendFlags p flags) w"

definition SendTo_ptr :: "'w sendto_fn \<Rightarrow> Socket \<Rightarrow> string \<Rightarrow> int \<Rightarrow> int
    \<Rightarrow> sockaddr_storage option \<Rightarrow> nat \<Rightarrow> 'w \<Rightarrow> (int \<times> 'w) option" where
  "SendTo_ptr sendto s buffer len flags to toLength w =
     sendto (socket_fld s) buffer len flags to toLength w"

definition Shutdown :: "platform \<Rightarrow> 'w shutdown_fn \<Rightarrow> Socket \<Rightarrow> ShutdownFlags \<Rightarrow> 'w
    \<Rightarrow> bool \<times> 'w" where
  "Shutdown p shutdown s flag w =
     (let (status, w') = shutdown (socket_fld s) (int_of_ShutdownFlags flag) w
      in (status \<noteq> SOCKET_ERROR p, w'))"

subsection \<open>The bulk Receive\<close>

text \<open>
  \<^verbatim>\<open>Receive(std::string&, ReceiveFlags)\<close> allocates \<^verbatim>\<open>std::vector<char> what(CHAR_MAX)\<close>,
  zero-filled, and runs a \<^verbatim>\<open>do ... while (received == CHAR_MAX)\<close> loop. Each round
  reads into \<open>what\<close> through the single-shot \<^verbatim>\<open>Receive\<close> with \<^verbatim>\<open>what.size()\<close> as the
  length, then appends the range \<^verbatim>\<open>what.cbegin()\<close> to \<^verbatim>\<open>what.cend()\<close>, the whole
  vector, to \<open>buffer\<close>. The loop has no bound of its own, and a read can block, so the
  result is an option: \<open>None\<close> when the call never returns.
\<close>

partial_function (option) Receive_loop :: "platform \<Rightarrow> 'w recv_fn \<Rightarrow> Socket \<Rightarrow> int
    \<Rightarrow> string \<Rightarrow> string \<Rightarrow> 'w \<Rightarrow> ((int \<times> string) \<times> 'w) option" where
  "Receive_loop p recv s flags what buffer w =
     Option.bind (Receive_ptr recv s what (int (length what)) flags w)
       (\<lambda>((received, what'), w').
          let buffer' = buffer @ what'
          in if received = int (CHAR_MAX p) then Receive_loop p recv s flags what' buffer' w'
             else Some ((received, buffer'), w'))"

definition Receive_str :: "platform \<Rightarrow> 'w recv_fn \<Rightarrow> Socket \<Rightarrow> string \<Rightarrow> ReceiveFlags \<Rightarrow> 'w
    \<Rightarrow> ((int \<times> string) \<times> 'w) option" where
  "Receive_str p recv s buffer flags w =
     Receive_loop p recv s (int_of_ReceiveFlags p flags)
       (replicate (CHAR_MAX p) (CHR 0x00)) buffer w"

section \<open>Worlds for concrete runs\<close>

text \<open>
  The wrappers are defined for any operating system. Three small ones let the model
  run: a script of read results, a connected pair of stream sockets on one host, and a
  log of the descriptors handed to \<^verbatim>\<open>close\<close>.
\<close>

text \<open>
  A call that copies \<open>data\<close> into a buffer replaces the start of the buffer and never
  writes past its end.
\<close>

definition overwrite :: "string \<Rightarrow> string \<Rightarrow> string" where
  "overwrite data buffer = take (length buffer) (data @ drop (length data) buffer)"

text \<open>
  A script is the list of results that successive reads will deliver, each a status
  and the bytes copied; beside it the world records the length every read asked for.
  A read on the empty script blocks.
\<close>

type_synonym scripted = "(int \<times> string) list \<times> int list"

definition scripted_recv :: "scripted recv_fn" where
  "scripted_recv fd buffer len flags w =
     (case fst w of
        [] \<Rightarrow> None
      | (r, data) # rest \<Rightarrow> Some ((r, overwrite data buffer), (rest, snd w @ [len])))"

text \<open>
  Two connected stream sockets, descriptors 3 and 4: each has the queue of bytes sent
  by the other and not yet read. A send queues its bytes at the peer; a read takes up
  to \<open>len\<close> queued bytes and blocks while the queue is empty.
\<close>

record loopback =
  rx_a :: string
  rx_b :: string

definition fd_a :: SOCKET where
  "fd_a = 3"

definition fd_b :: SOCKET where
  "fd_b = 4"

definition loopback_send :: "loopback send_fn" where
  "loopback_send fd buffer len flags w =
     (let data = take (nat len) buffer
      in if fd = fd_a then Some (int (length data), w\<lparr>rx_b := rx_b w @ data\<rparr>)
         else if fd = fd_b then Some (int (length data), w\<lparr>rx_a := rx_a w @ data\<rparr>)
         else Some (- 1, w))"

definition loopback_recv :: "loopback recv_fn" where
  "loopback_recv fd buffer len flags w =
     (if fd = fd_a then
        (if rx_a w = [] then None
         else (let data = take (nat len) (rx_a w)
               in Some ((int (length data), overwrite data buffer),
                        w\<lparr>rx_a := drop (nat len) (rx_a w)\<rparr>)))
      else if fd = fd_b then
        (if rx_b w = [] then None
         else (let data = take (nat len) (rx_b w)
               in Some ((int (length data), overwrite data buffer),
                        w\<lparr>rx_b := drop (nat len) (rx_b w)\<rparr>)))
      else Some ((- 1, buffer), w))"

text \<open>The log of \<^verbatim>\<open>close\<close> calls: every call succeeds and is recorded.\<close>

type_synonym close_log = "SOCKET list"

definition logged_close :: "close_log close_fn" where
  "logged_close fd log = (0, log @ [fd])"

text \<open>
  A datagram socket with a queue of datagrams, each with the socket address of its
  sender. \<^verbatim>\<open>recvfrom\<close> takes the first one; when both address pointers are given it
  copies the sender's address, cut to the capacity it was told, to the first and
  writes the address's own length to the second. It blocks on the empty queue.
\<close>

type_synonym datagrams = "(string \<times> byte list) list"

definition datagram_recvfrom :: "datagrams recvfrom_fn" where
  "datagram_recvfrom fd buffer len flags from fromLength w =
     (case w of
        [] \<Rightarrow> None
      | (data, peer) # rest \<Rightarrow>
          (case (from, fromLength) of
             (Some mem, Some n) \<Rightarrow>
               Some ((int (length (take len data)), overwrite (take len data) buffer,
                      Some (store 0 (take n peer) mem), Some (length peer)), rest)
           | _ \<Rightarrow>
               Some ((int (length (take len data)), overwrite (take len data) buffer,
                      from, fromLength), rest)))"

text \<open>The \<^verbatim>\<open>sockaddr_in\<close> of 127.0.0.1, port 8080, on a little-endian host: 16 bytes.\<close>

definition sample_peer :: "byte list" where
  "sample_peer = [2, 0, 31, 144, 127, 0, 0, 1, 0, 0, 0, 0, 0, 0, 0, 0]"

section \<open>Properties of the address storage\<close>

text \<open>
  A store keeps the size of the storage, a load after a store at the same place returns
  the bytes stored, and a store leaves every disjoint range alone.
\<close>

lemma length_store: "length (store off bs mem) = length mem"
  by (simp add: store_def)

lemma load_store_same: "off + length bs \<le> length mem \<Longrightarrow> load off (length bs) (store off bs mem) = bs"
  by (simp add: store_def load_def)

lemma nth_store_before: "i < off \<Longrightarrow> i < length mem \<Longrightarrow> store off bs mem ! i = mem ! i"
  by (simp add: store_def nth_append)

lemma nth_store_after:
  "off + length bs \<le> i \<Longrightarrow> i < length mem \<Longrightarrow> store off bs mem ! i = mem ! i"
  by (auto simp add: store_def nth_append min_def)

lemma load_store_before:
  assumes "off' + n \<le> off"
  shows "load off' n (store off bs mem) = load off' n mem"
proof (rule nth_equalityI)
  show "length (load off' n (store off bs mem)) = length (load off' n mem)"
    by (simp add: load_def length_store)
next
  fix i assume "i < length (load off' n (store off bs mem))"
  then have i: "i < n" "off' + i < length mem"
    by (auto simp add: load_def length_store)
  with assms have "store off bs mem ! (off' + i) = mem ! (off' + i)"
    by (intro nth_store_before) simp_all
  with i show "load off' n (store off bs mem) ! i = load off' n mem ! i"
    by (simp add: load_def length_store)
qed

lemma load_store_after:
  assumes "off + length bs \<le> off'"
  shows "load off' n (store off bs mem) = load off' n mem"
proof (rule nth_equalityI)
  show "length (load off' n (store off bs mem)) = length (load off' n mem)"
    by (simp add: load_def length_store)
next
  fix i assume "i < length (load off' n (store off bs mem))"
  then have i: "i < n" "off' + i < length mem"
    by (auto simp add: load_def length_store)
  with assms have "store off bs mem ! (off' + i) = mem ! (off' + i)"
    by (intro nth_store_after) simp_all
  with i show "load off' n (store off bs mem) ! i = load off' n mem ! i"
    by (simp add: load_def length_store)
qed

text \<open>
  A 16-bit field read back in the byte order of the host is the value stored. The bytes
  of \<open>htons p x\<close> in memory are the high byte of \<open>x\<close> and then its low byte on either
  kind of host: network byte order.
\<close>

lemma u16_roundtrip: "u16_of_bytes p (bytes_of_u16 p v) = v"
  unfolding u16_of_bytes_def bytes_of_u16_def high_byte_def low_byte_def
  by (auto intro!: bit_word_eqI simp add: bit_simps)

lemma bytes_htons: "bytes_of_u16 p (htons p x) = [high_byte x, low_byte x]"
  unfolding bytes_of_u16_def htons_def high_byte_def low_byte_def
  by (auto intro!: bit_word_eqI simp add: bit_simps)

lemma length_bytes_of_u16: "length (bytes_of_u16 p v) = 2"
  by (simp add: bytes_of_u16_def)

lemma load_store_u16:
  assumes "off + 2 \<le> length mem"
  shows "u16_of_bytes p (load off 2 (store off (bytes_of_u16 p v) mem)) = v"
proof -
  have "load off (length (bytes_of_u16 p v)) (store off (bytes_of_u16 p v) mem) = bytes_of_u16 p v"
    using assms by (intro load_store_same) (simp add: length_bytes_of_u16)
  then show ?thesis
    by (simp add: length_bytes_of_u16 u16_roundtrip)
qed

lemma sa_family_set:
  "2 \<le> length mem \<Longrightarrow> sa_family p (set_sa_family p v mem) = v"
  unfolding sa_family_def set_sa_family_def by (rule load_store_u16) simp

lemma sa_family_fresh:
  "sa_family p (set_sa_family p v (replicate sizeof_sockaddr_storage 0)) = v"
  by (rule sa_family_set) (simp add: sizeof_sockaddr_storage_def)

section \<open>The default constructor\<close>

text \<open>
  C8. A default-constructed Address has fully zeroed address storage, every one of the
  \<open>sizeof_sockaddr_storage\<close> bytes being 0, and a stored length of zero, which
  \<open>size\<close> reports.
\<close>

theorem Address_default_zeroed:
  "address_fld (Address_default raw) = replicate sizeof_sockaddr_storage 0
   \<and> length_fld (Address_default raw) = 0
   \<and> size (Address_default raw) = 0"
  by (simp add: Address_default_def size_def)

text \<open>
  C9. The default constructor never assigns the validity flag: after construction the
  field holds whatever the object's storage held before, and the validity query returns
  that. Its result is therefore not fixed by the constructor: for either truth value
  there is a prior content of the storage for which the query returns it.
\<close>

theorem Address_default_state_unassigned:
  "state_fld (Address_default raw) = state_fld raw
   \<and> operator_bool (Address_default raw) = state_fld raw
   \<and> operator_bool (Address_default (raw\<lparr>state_fld := b\<rparr>)) = b"
  by (simp add: Address_default_def operator_bool_def)

section \<open>The parameterized constructor\<close>

text \<open>
  C10, as amended. For every family, text and port, the parameterized constructor sets
  the stored length to the full capacity of the storage, \<open>sizeof_sockaddr_storage\<close>,
  whatever the family and whether or not parsing succeeded, and \<open>size\<close> returns that
  value on the constructed object; the storage itself has that many bytes. The value
  is not fixed for the life of the object: a write through the pointer to the address
  leaves it alone, and a write through the pointer that \<^verbatim>\<open>ptr()\<close> and
  \<^verbatim>\<open>operator socklen_t*()\<close> hand out replaces it, after which \<open>size\<close> returns the
  value written.
\<close>

theorem Address_length_is_capacity:
  "length_fld (Address p inet_pton family ip port raw) = sizeof_sockaddr_storage
   \<and> size (Address p inet_pton family ip port raw) = sizeof_sockaddr_storage
   \<and> length (address_fld (Address p inet_pton family ip port raw)) = sizeof_sockaddr_storage
   \<and> size (name_store (Address p inet_pton family ip port raw) mem) = sizeof_sockaddr_storage
   \<and> size (ptr_store (Address p inet_pton family ip port raw) n) = n"
  by (simp add: Address_def size_def name_store_def ptr_store_def Let_def length_store
      set_sa_family_def set_sin_port_def set_sin6_port_def split: prod.split)

text \<open>
  C10 as stated fails at "thereafter". An INET address for 0.0.0.0, port 0, is
  constructed, and its size is 128. It is then passed to \<open>ReceiveFrom_into\<close> on a
  socket where one datagram from 127.0.0.1, port 8080, is waiting: the call returns the
  4 bytes received, the object now holds the sender's address, and its size is 16.
\<close>

theorem Address_size_rewritten_by_ReceiveFrom:
  "size (Address linux_le sample_inet_pton 2 ''0.0.0.0'' 0 raw_object) = 128
   \<and> ReceiveFrom_into datagram_recvfrom (Socket_wrap 5) ''........'' 8 0
        (Address linux_le sample_inet_pton 2 ''0.0.0.0'' 0 raw_object) [(''ping'', sample_peer)]
      = Some ((4, ''ping....'',
          ptr_store (name_store (Address linux_le sample_inet_pton 2 ''0.0.0.0'' 0 raw_object)
            (store 0 sample_peer
               (name (Address linux_le sample_inet_pton 2 ''0.0.0.0'' 0 raw_object)))) 16), [])
   \<and> size (ptr_store (name_store (Address linux_le sample_inet_pton 2 ''0.0.0.0'' 0 raw_object)
            (store 0 sample_peer
               (name (Address linux_le sample_inet_pton 2 ''0.0.0.0'' 0 raw_object)))) 16) = 16
   \<and> sizeof_sockaddr_storage = 128"
proof -
  have sz: "size (Address linux_le sample_inet_pton 2 ''0.0.0.0'' 0 raw_object) = 128"
    by (simp add: Address_def size_def Let_def sizeof_sockaddr_storage_def split: prod.split)
  have peer: "length sample_peer = 16" "take 128 sample_peer = sample_peer"
    by (simp_all add: sample_peer_def)
  have run: "ReceiveFrom_into datagram_recvfrom (Socket_wrap 5) ''........'' 8 0
        (Address linux_le sample_inet_pton 2 ''0.0.0.0'' 0 raw_object) [(''ping'', sample_peer)]
      = Some ((4, ''ping....'',
          ptr_store (name_store (Address linux_le sample_inet_pton 2 ''0.0.0.0'' 0 raw_object)
            (store 0 sample_peer
               (name (Address linux_le sample_inet_pton 2 ''0.0.0.0'' 0 raw_object)))) 16), [])"
    by (simp add: ReceiveFrom_into_def ReceiveFrom_ptr_def datagram_recvfrom_def sz peer
        overwrite_def)
  show ?thesis
    using sz run by (simp add: size_def ptr_store_def sizeof_sockaddr_storage_def)
qed

text \<open>
  The family handed to \<open>inet_pton\<close> is the enumerator itself, and the flag after
  construction is decided by the branch taken and by the status alone.
\<close>

lemma readback_INET:
  "uint (sa_family p (set_sa_family p (word_of_int (INET p))
     (replicate sizeof_sockaddr_storage 0))) = INET p"
  by (simp add: sa_family_fresh INET_def)

lemma readback_INET6:
  "uint (sa_family p (set_sa_family p (word_of_int (INET6 p))
     (replicate sizeof_sockaddr_storage 0))) = INET6 p"
  by (simp add: sa_family_fresh INET6_def)

lemma Address_state_INET:
  "state_fld (Address p inet_pton (INET p) ip port raw)
     = (fst (inet_pton (INET p) ip) \<noteq> 0 \<and> fst (inet_pton (INET p) ip) \<noteq> - 1)"
  by (simp add: Address_def Let_def readback_INET case_prod_beta)

lemma Address_state_INET6:
  "state_fld (Address p inet_pton (INET6 p) ip port raw)
     = (fst (inet_pton (INET6 p) ip) \<noteq> 0 \<and> fst (inet_pton (INET6 p) ip) \<noteq> - 1)"
  by (auto simp add: Address_def Let_def readback_INET readback_INET6 case_prod_beta)

lemma Address_state_other:
  "family \<noteq> INET p \<Longrightarrow> family \<noteq> INET6 p
    \<Longrightarrow> state_fld (Address p inet_pton family ip port raw) = False"
  by (simp add: Address_def Let_def)

text \<open>
  C4. For every family and every text that fails to parse for that family
  (\<open>inet_pton\<close> answers 0 or -1), the parameterized constructor produces an object
  whose validity query returns false; the same holds for every family value other than
  INET and INET6.
\<close>

theorem Address_invalid_on_failure:
  assumes "(family \<noteq> INET p \<and> family \<noteq> INET6 p)
     \<or> fst (inet_pton family ip) = 0 \<or> fst (inet_pton family ip) = - 1"
  shows "operator_bool (Address p inet_pton family ip port raw) = False"
proof -
  consider "family = INET p" | "family = INET6 p" | "family \<noteq> INET p" "family \<noteq> INET6 p"
    by blast
  then show ?thesis
  proof cases
    case 1
    with assms show ?thesis
      unfolding operator_bool_def by (auto simp add: Address_state_INET)
  next
    case 2
    with assms show ?thesis
      unfolding operator_bool_def by (auto simp add: Address_state_INET6)
  next
    case 3
    then show ?thesis
      unfolding operator_bool_def by (simp add: Address_state_other)
  qed
qed

text \<open>
  The theorem at the malformed texts \<^verbatim>\<open>999.1.1.1\<close>, the empty text and \<^verbatim>\<open>abc\<close>, for
  INET and for INET6, and at the family value 0, which is neither.
\<close>

theorem Address_invalid_on_failure_witness:
  "fst (sample_inet_pton (INET linux_le) ''999.1.1.1'') = 0
   \<and> operator_bool (Address linux_le sample_inet_pton (INET linux_le) ''999.1.1.1'' 8080
        raw_object) = False
   \<and> fst (sample_inet_pton (INET linux_le) '''') = 0
   \<and> operator_bool (Address linux_le sample_inet_pton (INET linux_le) '''' 8080
        raw_object) = False
   \<and> fst (sample_inet_pton (INET6 linux_le) ''abc'') = 0
   \<and> operator_bool (Address linux_le sample_inet_pton (INET6 linux_le) ''abc'' 8080
        raw_object) = False
   \<and> 0 \<noteq> INET linux_le \<and> 0 \<noteq> INET6 linux_le
   \<and> operator_bool (Address linux_le sample_inet_pton 0 ''127.0.0.1'' 8080
        raw_object) = False"
proof -
  have h1: "fst (sample_inet_pton (INET linux_le) ''999.1.1.1'') = 0"
    and h2: "fst (sample_inet_pton (INET linux_le) '''') = 0"
    and h3: "fst (sample_inet_pton (INET6 linux_le) ''abc'') = 0"
    and h4: "0 \<noteq> INET linux_le \<and> 0 \<noteq> INET6 linux_le"
    by code_simp+
  note t = Address_invalid_on_failure [where p = linux_le and inet_pton = sample_inet_pton
      and port = 8080 and raw = raw_object]
  from h1 have "operator_bool (Address linux_le sample_inet_pton (INET linux_le)
      ''999.1.1.1'' 8080 raw_object) = False"
    by (intro t) simp
  moreover from h2 have "operator_bool (Address linux_le sample_inet_pton (INET linux_le)
      '''' 8080 raw_object) = False"
    by (intro t) simp
  moreover from h3 have "operator_bool (Address linux_le sample_inet_pton (INET6 linux_le)
      ''abc'' 8080 raw_object) = False"
    by (intro t) simp
  moreover from h4 have "operator_bool (Address linux_le sample_inet_pton 0
      ''127.0.0.1'' 8080 raw_object) = False"
    by (intro t) simp
  ultimately show ?thesis
    using h1 h2 h3 h4 by simp
qed

text \<open>The storage after a successful parse, for each family.\<close>

lemma Address_mem_INET:
  assumes "fst (inet_pton (INET p) ip) \<noteq> 0" "fst (inet_pton (INET p) ip) \<noteq> - 1"
  shows "address_fld (Address p inet_pton (INET p) ip port raw)
     = set_sin_port p (htons p port) (store 4 (snd (inet_pton (INET p) ip))
         (set_sa_family p (AF_INET p) (replicate sizeof_sockaddr_storage 0)))"
proof -
  have w: "word_of_int (INET p) = AF_INET p" and u: "uint (AF_INET p) = INET p"
    by (simp_all add: INET_def)
  from assms show ?thesis
    by (simp add: Address_def Let_def w sa_family_fresh u case_prod_beta)
qed

lemma Address_mem_INET6:
  assumes "INET6 p \<noteq> INET p"
    and "fst (inet_pton (INET6 p) ip) \<noteq> 0" "fst (inet_pton (INET6 p) ip) \<noteq> - 1"
  shows "address_fld (Address p inet_pton (INET6 p) ip port raw)
     = set_sin6_port p (htons p port) (store 8 (snd (inet_pton (INET6 p) ip))
         (set_sa_family p (AF_INET6 p) (replicate sizeof_sockaddr_storage 0)))"
proof -
  have w: "word_of_int (INET6 p) = AF_INET6 p" and u: "uint (AF_INET6 p) = INET6 p"
    by (simp_all add: INET6_def)
  from assms show ?thesis
    by (simp add: Address_def Let_def w sa_family_fresh u case_prod_beta)
qed

lemma sockaddr_fields:
  fixes p :: platform and v port :: "16 word" and mem bs :: "byte list" and off :: nat
  assumes "length mem = sizeof_sockaddr_storage" "off = 4 \<or> off = 8" "off + length bs \<le> 24"
  defines "mem' \<equiv> store 2 (bytes_of_u16 p (htons p port)) (store off bs (set_sa_family p v mem))"
  shows "sa_family p mem' = v"
    and "load off (length bs) mem' = bs"
    and "u16_of_bytes p (load 2 2 mem') = htons p port"
    and "load 2 2 mem' = [high_byte port, low_byte port]"
proof -
  have len: "length (set_sa_family p v mem) = 128" "length (store off bs (set_sa_family p v mem)) = 128"
    using assms(1) by (simp_all add: set_sa_family_def length_store sizeof_sockaddr_storage_def)
  have "load 0 2 mem' = load 0 2 (store off bs (set_sa_family p v mem))"
    unfolding mem'_def by (rule load_store_before) simp
  also have "\<dots> = load 0 2 (set_sa_family p v mem)"
    using assms(2) by (intro load_store_before) auto
  finally show "sa_family p mem' = v"
    using assms(1) sa_family_set [of mem p v]
    by (simp add: sa_family_def sizeof_sockaddr_storage_def)
  have "load off (length bs) mem' = load off (length bs) (store off bs (set_sa_family p v mem))"
    unfolding mem'_def using assms(2)
    by (intro load_store_after) (auto simp add: length_bytes_of_u16)
  also have "\<dots> = bs"
    using assms(3) len by (intro load_store_same) simp
  finally show "load off (length bs) mem' = bs" .
  show "u16_of_bytes p (load 2 2 mem') = htons p port"
    unfolding mem'_def using len by (intro load_store_u16) simp
  have "load 2 (length (bytes_of_u16 p (htons p port))) mem' = bytes_of_u16 p (htons p port)"
    unfolding mem'_def using len by (intro load_store_same) (simp add: length_bytes_of_u16)
  then have "load 2 2 mem' = bytes_of_u16 p (htons p port)"
    by (simp only: length_bytes_of_u16)
  then show "load 2 2 mem' = [high_byte port, low_byte port]"
    by (simp only: bytes_htons)
qed

text \<open>
  C3. For a family in INET, INET6, a text that parses successfully for that family
  (\<open>inet_pton\<close> answers 1 and writes the binary address \<open>bs\<close>, 4 bytes for INET and
  16 for INET6) and every 16-bit port, the constructed object's validity query returns
  true, its storage is tagged with the family and holds \<open>bs\<close> in the family's address
  field, and its port field equals \<open>htons p port\<close>: in memory, the high byte of the port
  and then the low byte.
\<close>

theorem Address_valid_on_success:
  assumes fam: "family = INET p \<or> family = INET6 p"
    and ok: "inet_pton family ip = (1, bs)"
    and len: "length bs = (if family = INET p then 4 else 16)"
  shows "operator_bool (Address p inet_pton family ip port raw)
    \<and> uint (sa_family p (address_fld (Address p inet_pton family ip port raw))) = family
    \<and> (if family = INET p then sin_addr (address_fld (Address p inet_pton family ip port raw))
        else sin6_addr (address_fld (Address p inet_pton family ip port raw))) = bs
    \<and> (if family = INET p then sin_port p (address_fld (Address p inet_pton family ip port raw))
        else sin6_port p (address_fld (Address p inet_pton family ip port raw))) = htons p port
    \<and> load 2 2 (address_fld (Address p inet_pton family ip port raw))
        = [high_byte port, low_byte port]"
proof (cases "family = INET p")
  case True
  have ok': "inet_pton (INET p) ip = (1, bs)" and len': "length bs = 4"
    using ok len True by simp_all
  have mem: "address_fld (Address p inet_pton (INET p) ip port raw)
     = store 2 (bytes_of_u16 p (htons p port)) (store 4 bs
         (set_sa_family p (AF_INET p) (replicate sizeof_sockaddr_storage 0)))"
    using ok' by (simp add: Address_mem_INET set_sin_port_def)
  have l: "length (replicate sizeof_sockaddr_storage (0::byte)) = sizeof_sockaddr_storage"
    by simp
  have b: "4 + length bs \<le> 24"
    using len' by simp
  have o: "(4::nat) = 4 \<or> (4::nat) = 8"
    by simp
  note f = sockaddr_fields [where off = 4 and p = p and port = port and v = "AF_INET p",
      OF l o b, folded mem]
  have "state_fld (Address p inet_pton (INET p) ip port raw)"
    using ok' by (simp add: Address_state_INET)
  moreover have "uint (sa_family p (address_fld (Address p inet_pton (INET p) ip port raw))) = INET p"
    using f(1) by (simp add: INET_def)
  moreover have "sin_addr (address_fld (Address p inet_pton (INET p) ip port raw)) = bs"
    using f(2) len' by (simp add: sin_addr_def)
  moreover have "sin_port p (address_fld (Address p inet_pton (INET p) ip port raw)) = htons p port"
    using f(3) by (simp add: sin_port_def)
  ultimately show ?thesis
    using f(4) unfolding True operator_bool_def by simp
next
  case False
  with fam have six: "family = INET6 p" "INET6 p \<noteq> INET p"
    by auto
  have ok': "inet_pton (INET6 p) ip = (1, bs)" and len': "length bs = 16"
    using ok len six False by simp_all
  have mem: "address_fld (Address p inet_pton (INET6 p) ip port raw)
     = store 2 (bytes_of_u16 p (htons p port)) (store 8 bs
         (set_sa_family p (AF_INET6 p) (replicate sizeof_sockaddr_storage 0)))"
    using ok' six(2) by (simp add: Address_mem_INET6 set_sin6_port_def)
  have l: "length (replicate sizeof_sockaddr_storage (0::byte)) = sizeof_sockaddr_storage"
    by simp
  have b: "8 + length bs \<le> 24"
    using len' by simp
  have o: "(8::nat) = 4 \<or> (8::nat) = 8"
    by simp
  note f = sockaddr_fields [where off = 8 and p = p and port = port and v = "AF_INET6 p",
      OF l o b, folded mem]
  have "state_fld (Address p inet_pton (INET6 p) ip port raw)"
    using ok' by (simp add: Address_state_INET6)
  moreover have "uint (sa_family p (address_fld (Address p inet_pton (INET6 p) ip port raw))) = INET6 p"
    using f(1) by (simp add: INET6_def)
  moreover have "sin6_addr (address_fld (Address p inet_pton (INET6 p) ip port raw)) = bs"
    using f(2) len' by (simp add: sin6_addr_def)
  moreover have "sin6_port p (address_fld (Address p inet_pton (INET6 p) ip port raw)) = htons p port"
    using f(3) by (simp add: sin6_port_def)
  ultimately show ?thesis
    using f(4) six(2) unfolding six(1) operator_bool_def by simp
qed

text \<open>
  The theorem at \<^verbatim>\<open>127.0.0.1\<close> for INET and at \<^verbatim>\<open>::1\<close> for INET6, port 8080: the port
  bytes are 31 and 144, that is 0x1F90 with the high byte first.
\<close>

theorem Address_valid_on_success_witness:
  "sample_inet_pton (INET linux_le) ''127.0.0.1'' = (1, [127, 0, 0, 1])
   \<and> operator_bool (Address linux_le sample_inet_pton (INET linux_le) ''127.0.0.1'' 8080
        raw_object)
   \<and> uint (sa_family linux_le (address_fld (Address linux_le sample_inet_pton (INET linux_le)
        ''127.0.0.1'' 8080 raw_object))) = 2
   \<and> sin_addr (address_fld (Address linux_le sample_inet_pton (INET linux_le) ''127.0.0.1''
        8080 raw_object)) = [127, 0, 0, 1]
   \<and> load 2 2 (address_fld (Address linux_le sample_inet_pton (INET linux_le) ''127.0.0.1''
        8080 raw_object)) = [31, 144]
   \<and> sample_inet_pton (INET6 linux_le) ''::1'' = (1, replicate 15 0 @ [1])
   \<and> operator_bool (Address linux_le sample_inet_pton (INET6 linux_le) ''::1'' 8080
        raw_object)
   \<and> sin6_addr (address_fld (Address linux_le sample_inet_pton (INET6 linux_le) ''::1''
        8080 raw_object)) = replicate 15 0 @ [1]"
proof -
  have h4: "sample_inet_pton (INET linux_le) ''127.0.0.1'' = (1, [127, 0, 0, 1])"
    and h6: "sample_inet_pton (INET6 linux_le) ''::1'' = (1, replicate 15 0 @ [1])"
    and ne: "INET6 linux_le \<noteq> INET linux_le"
    by code_simp+
  have l4: "length [127, 0, 0, 1 :: byte] = (if INET linux_le = INET linux_le then 4 else 16)"
    by simp
  have l6: "length (replicate 15 0 @ [1 :: byte])
      = (if INET6 linux_le = INET linux_le then 4 else 16)"
    using ne by simp
  have b: "high_byte 8080 = 31" "low_byte 8080 = 144"
    by (simp_all add: high_byte_def low_byte_def)
  have f: "INET linux_le = 2"
    by (simp add: INET_def linux_le_def)
  note t4 = Address_valid_on_success [where p = linux_le and inet_pton = sample_inet_pton
      and port = 8080 and raw = raw_object and family = "INET linux_le", OF _ h4 l4]
  note t6 = Address_valid_on_success [where p = linux_le and inet_pton = sample_inet_pton
      and port = 8080 and raw = raw_object and family = "INET6 linux_le", OF _ h6 l6]
  from t4 t6 h4 h6 b ne f show ?thesis
    by simp
qed

section \<open>The single-shot wrappers\<close>

text \<open>
  C6. For every buffer, length and flags, the single-shot \<open>Receive_ptr\<close>,
  \<open>ReceiveFrom_ptr\<close>, \<open>Send_ptr\<close> and \<open>SendTo_ptr\<close> are exactly one call of the
  operating system on the wrapped descriptor with the arguments given: the value
  returned, the data written and the state of the world afterwards are those of that
  one call, with no retry, no translation and no other change.
\<close>

theorem wrappers_return_os_result:
  "Receive_ptr recv s buffer len flags w = recv (socket_fld s) buffer len flags w
   \<and> ReceiveFrom_ptr recvfrom s buffer n flags from fromLength w
       = recvfrom (socket_fld s) buffer n flags from fromLength w
   \<and> Send_ptr send s buffer len flags w' = send (socket_fld s) buffer len flags w'
   \<and> SendTo_ptr sendto s buffer len flags to toLength w''
       = sendto (socket_fld s) buffer len flags to toLength w''"
  by (simp add: Receive_ptr_def ReceiveFrom_ptr_def Send_ptr_def SendTo_ptr_def)

text \<open>
  C7. For every direction flag, \<open>Shutdown\<close> returns true if and only if the status of
  the operating system's shutdown call is not \<open>SOCKET_ERROR\<close>, and it makes that one
  call and nothing else.
\<close>

theorem Shutdown_true_iff_os_success:
  "fst (Shutdown p shutdown s flag w)
     = (fst (shutdown (socket_fld s) (int_of_ShutdownFlags flag) w) \<noteq> SOCKET_ERROR p)
   \<and> snd (Shutdown p shutdown s flag w)
     = snd (shutdown (socket_fld s) (int_of_ShutdownFlags flag) w)"
  by (simp add: Shutdown_def case_prod_beta)

section \<open>Ownership of the descriptor\<close>

text \<open>
  C5, as amended. Destroying a Socket object closes the descriptor it holds exactly
  once and unconditionally: the destructor is one close call on that descriptor, and in
  the log of close calls the count of that descriptor rises by one and no other count
  changes. Exclusive ownership is not enforced by the type, so a descriptor is closed
  once for every object that holds it.
\<close>

theorem Socket_destroy_closes_once:
  "Socket_destroy close s w = snd (close (socket_fld s) w)
   \<and> count_list (Socket_destroy logged_close s log) fd
       = count_list log fd + (if fd = socket_fld s then 1 else 0)"
  by (simp add: Socket_destroy_def nsCloseSocket_def logged_close_def)

text \<open>
  C5 as stated fails: the type permits copying. A Socket wrapping descriptor 3 is
  copied, the copy holds descriptor 3 too, and when both objects have been destroyed
  descriptor 3 has been closed twice.
\<close>

theorem Socket_copy_double_close:
  "socket_fld (Socket_copy (Socket_wrap 3)) = socket_fld (Socket_wrap 3)
   \<and> count_list
        (Socket_destroy logged_close (Socket_wrap 3)
           (Socket_destroy logged_close (Socket_copy (Socket_wrap 3)) [])) 3 = 2"
  by (simp add: Socket_destroy_def nsCloseSocket_def logged_close_def Socket_copy_def
      Socket_wrap_def)

section \<open>The bulk Receive\<close>

text \<open>One round of the loop, for any operating system: blocked, finished, or continuing.\<close>

lemma Receive_loop_blocked:
  "recv (socket_fld s) what (int (length what)) flags w = None
    \<Longrightarrow> Receive_loop p recv s flags what buffer w = None"
  by (subst Receive_loop.simps) (simp add: Receive_ptr_def)

lemma Receive_loop_stop:
  "recv (socket_fld s) what (int (length what)) flags w = Some ((r, what'), w')
    \<Longrightarrow> r \<noteq> int (CHAR_MAX p)
    \<Longrightarrow> Receive_loop p recv s flags what buffer w = Some ((r, buffer @ what'), w')"
  by (subst Receive_loop.simps) (simp add: Receive_ptr_def)

lemma Receive_loop_continue:
  "recv (socket_fld s) what (int (length what)) flags w = Some ((int (CHAR_MAX p), what'), w')
    \<Longrightarrow> Receive_loop p recv s flags what buffer w
        = Receive_loop p recv s flags what' (buffer @ what') w'"
  by (subst Receive_loop.simps) (simp add: Receive_ptr_def)

lemma length_overwrite: "length (overwrite data buffer) = length buffer"
  by (simp add: overwrite_def)

text \<open>The loop on a script of read results.\<close>

lemma Receive_loop_scripted_Nil:
  "Receive_loop p scripted_recv s flags what buffer ([], lens) = None"
  by (subst Receive_loop.simps) (simp add: Receive_ptr_def scripted_recv_def)

lemma Receive_loop_scripted_Cons:
  "Receive_loop p scripted_recv s flags what buffer ((r, d) # rest, lens) =
     (if r = int (CHAR_MAX p)
      then Receive_loop p scripted_recv s flags (overwrite d what) (buffer @ overwrite d what)
             (rest, lens @ [int (length what)])
      else Some ((r, buffer @ overwrite d what), (rest, lens @ [int (length what)])))"
  by (subst Receive_loop.simps) (simp add: Receive_ptr_def scripted_recv_def Let_def)

lemma Receive_loop_scripted:
  "map_option (\<lambda>((r, buf), w). (r, w))
     (Receive_loop p scripted_recv s flags what buffer (script, lens)) =
   (case dropWhile (\<lambda>x. fst x = int (CHAR_MAX p)) script of
      [] \<Rightarrow> None
    | (r, d) # rest \<Rightarrow>
        Some (r, (rest, lens @ replicate
           (Suc (length (takeWhile (\<lambda>x. fst x = int (CHAR_MAX p)) script)))
           (int (length what)))))"
proof (induction script arbitrary: what buffer lens)
  case Nil
  show ?case by (simp add: Receive_loop_scripted_Nil)
next
  case (Cons x script)
  obtain r d where x: "x = (r, d)" by (cases x)
  show ?case
  proof (cases "r = int (CHAR_MAX p)")
    case True
    have "map_option (\<lambda>((r, buf), w). (r, w))
        (Receive_loop p scripted_recv s flags what buffer (x # script, lens)) =
      map_option (\<lambda>((r, buf), w). (r, w))
        (Receive_loop p scripted_recv s flags (overwrite d what) (buffer @ overwrite d what)
          (script, lens @ [int (length what)]))"
      using True by (simp add: x Receive_loop_scripted_Cons)
    also note Cons.IH
    also have "(case dropWhile (\<lambda>x. fst x = int (CHAR_MAX p)) script of
          [] \<Rightarrow> None
        | (r, d') # rest \<Rightarrow>
            Some (r, (rest, (lens @ [int (length what)]) @ replicate
              (Suc (length (takeWhile (\<lambda>x. fst x = int (CHAR_MAX p)) script)))
              (int (length (overwrite d what)))))) =
      (case dropWhile (\<lambda>x. fst x = int (CHAR_MAX p)) (x # script) of
          [] \<Rightarrow> None
        | (r, d') # rest \<Rightarrow>
            Some (r, (rest, lens @ replicate
              (Suc (length (takeWhile (\<lambda>x. fst x = int (CHAR_MAX p)) (x # script))))
              (int (length what)))))"
      using True by (simp add: x length_overwrite cong: list.case_cong)
    finally show ?thesis .
  next
    case False
    then show ?thesis
      by (simp add: x Receive_loop_scripted_Cons)
  qed
qed

text \<open>
  C2. For every sequence of underlying reads, the bulk Receive reads in rounds, each
  asking for \<open>CHAR_MAX\<close> bytes; it goes on exactly while the reads return \<open>CHAR_MAX\<close>,
  stops at the first read that returns any other value, and returns that read's value.
  On a script of read results: the reads consumed are the longest prefix of results
  equal to \<open>CHAR_MAX\<close> and the one after it, each recorded with the requested length
  \<open>CHAR_MAX\<close>; the value returned is the status of that last read; and when every
  result of the script is \<open>CHAR_MAX\<close> the call does not return.
\<close>

theorem Receive_str_reads_until_short:
  "map_option (\<lambda>((r, buf), w). (r, w))
     (Receive_str p scripted_recv s buffer flags (script, lens)) =
   (case dropWhile (\<lambda>x. fst x = int (CHAR_MAX p)) script of
      [] \<Rightarrow> None
    | (r, d) # rest \<Rightarrow>
        Some (r, (rest, lens @ replicate
           (Suc (length (takeWhile (\<lambda>x. fst x = int (CHAR_MAX p)) script)))
           (int (CHAR_MAX p)))))"
  unfolding Receive_str_def by (simp add: Receive_loop_scripted cong: list.case_cong)

text \<open>
  A run: two full reads, then one of 5 bytes. Three reads of 127 bytes are made, 5 is
  returned, and the fourth result stays unread.
\<close>

lemma Receive_str_scripted_example:
  "Receive_str linux_le scripted_recv (Socket_wrap 4) ''x'' ReceiveFlags_NONE
     ([(127, ''a''), (127, ''b''), (5, ''c''), (127, ''d'')], []) =
   Some ((5, ''x'' @ ''a'' @ replicate 126 (CHR 0x00) @ ''b'' @ replicate 126 (CHR 0x00)
             @ ''c'' @ replicate 126 (CHR 0x00)),
         ([(127, ''d'')], [127, 127, 127]))"
  unfolding Receive_str_def
  by (simp add: Receive_loop_scripted_Cons Receive_loop_scripted_Nil linux_le_def overwrite_def
      int_of_ReceiveFlags_def)

text \<open>
  Every round appends the whole chunk vector, so the buffer grows by \<open>CHAR_MAX\<close> bytes
  per read whatever the reads returned.
\<close>

lemma Receive_loop_buffer_length:
  "Receive_loop p scripted_recv s flags what buffer (script, lens) = Some ((r, buf), w) \<Longrightarrow>
   length buf = length buffer +
     Suc (length (takeWhile (\<lambda>x. fst x = int (CHAR_MAX p)) script)) * length what"
proof (induction script arbitrary: what buffer lens)
  case Nil
  then show ?case by (simp add: Receive_loop_scripted_Nil)
next
  case (Cons x script)
  obtain r' d where x: "x = (r', d)" by (cases x)
  show ?case
  proof (cases "r' = int (CHAR_MAX p)")
    case True
    with Cons.prems have "Receive_loop p scripted_recv s flags (overwrite d what)
        (buffer @ overwrite d what) (script, lens @ [int (length what)]) = Some ((r, buf), w)"
      by (simp add: x Receive_loop_scripted_Cons)
    from Cons.IH [OF this] True show ?thesis
      by (simp add: x length_overwrite)
  next
    case False
    with Cons.prems show ?thesis
      by (auto simp add: x Receive_loop_scripted_Cons length_overwrite)
  qed
qed

text \<open>
  On the connected pair the same holds for every payload. A read that fills the chunk
  continues the loop, and the read that ends it returned less than a chunk while a
  whole chunk was appended: when the call returns, the buffer has grown by more than
  the bytes that were queued. So no payload at all comes back as it was sent.
\<close>

lemma loopback_recv_fd_b:
  "loopback_recv fd_b what len flags w =
     (if rx_b w = [] then None
      else Some ((int (length (take (nat len) (rx_b w))), overwrite (take (nat len) (rx_b w)) what),
                 w\<lparr>rx_b := drop (nat len) (rx_b w)\<rparr>))"
  by (simp add: loopback_recv_def fd_a_def fd_b_def Let_def)

lemma Receive_loop_loopback_overshoots:
  assumes "0 < CHAR_MAX p" and "length what = CHAR_MAX p"
    and "Receive_loop p loopback_recv (Socket_wrap fd_b) flags what buffer w = Some ((r, buf), w')"
  shows "length buffer + length (rx_b w) < length buf"
  using assms(2,3)
proof (induction "length (rx_b w)" arbitrary: w what buffer rule: less_induct)
  case less
  let ?n = "CHAR_MAX p"
  let ?q = "rx_b w"
  let ?data = "take ?n ?q"
  let ?what = "overwrite ?data what"
  let ?w = "w\<lparr>rx_b := drop ?n ?q\<rparr>"
  have fd: "socket_fld (Socket_wrap fd_b) = fd_b"
    by (simp add: Socket_wrap_def)
  show ?case
  proof (cases "?q = []")
    case True
    then have "Receive_loop p loopback_recv (Socket_wrap fd_b) flags what buffer w = None"
      by (intro Receive_loop_blocked) (simp add: fd loopback_recv_fd_b)
    with less.prems show ?thesis by simp
  next
    case False
    then have rd: "loopback_recv (socket_fld (Socket_wrap fd_b)) what (int (length what)) flags w
        = Some ((int (length ?data), ?what), ?w)"
      using less.prems(1) by (simp add: fd loopback_recv_fd_b)
    show ?thesis
    proof (cases "?n \<le> length ?q")
      case True
      then have full: "int (length ?data) = int ?n"
        by simp
      from rd have "Receive_loop p loopback_recv (Socket_wrap fd_b) flags what buffer w
          = Receive_loop p loopback_recv (Socket_wrap fd_b) flags ?what (buffer @ ?what) ?w"
        unfolding full by (rule Receive_loop_continue)
      with less.prems have run: "Receive_loop p loopback_recv (Socket_wrap fd_b) flags ?what
          (buffer @ ?what) ?w = Some ((r, buf), w')"
        by simp
      have smaller: "length (rx_b ?w) < length ?q"
        using False assms(1) by simp
      have "length (buffer @ ?what) + length (rx_b ?w) < length buf"
        using less.hyps [OF smaller _ run] less.prems(1) by (simp add: length_overwrite)
      with True less.prems(1) show ?thesis
        by (simp add: length_overwrite)
    next
      case False
      then have short: "int (length ?data) \<noteq> int ?n"
        by simp
      from rd short have "Receive_loop p loopback_recv (Socket_wrap fd_b) flags what buffer w
          = Some ((int (length ?data), buffer @ ?what), ?w)"
        by (rule Receive_loop_stop)
      with less.prems have "buf = buffer @ ?what"
        by simp
      with False less.prems(1) show ?thesis
        by (simp add: length_overwrite)
    qed
  qed
qed

lemma Send_Receive_never_echoes:
  assumes "0 < CHAR_MAX p"
  shows "Option.bind
     (Send_str p loopback_send (Socket_wrap fd_a) payload SendFlags_NONE \<lparr>rx_a = [], rx_b = []\<rparr>)
     (\<lambda>(sent, w). Receive_str p loopback_recv (Socket_wrap fd_b) [] flags w)
   \<noteq> Some ((r, payload), w')"
proof
  assume eq: "Option.bind
     (Send_str p loopback_send (Socket_wrap fd_a) payload SendFlags_NONE \<lparr>rx_a = [], rx_b = []\<rparr>)
     (\<lambda>(sent, w). Receive_str p loopback_recv (Socket_wrap fd_b) [] flags w)
   = Some ((r, payload), w')"
  have sent: "Send_str p loopback_send (Socket_wrap fd_a) payload SendFlags_NONE
      \<lparr>rx_a = [], rx_b = []\<rparr> = Some (int (length payload), \<lparr>rx_a = [], rx_b = payload\<rparr>)"
    by (simp add: Send_str_def Send_ptr_def loopback_send_def Socket_wrap_def)
  from eq have "Receive_loop p loopback_recv (Socket_wrap fd_b) (int_of_ReceiveFlags p flags)
      (replicate (CHAR_MAX p) (CHR 0x00)) [] \<lparr>rx_a = [], rx_b = payload\<rparr> = Some ((r, payload), w')"
    by (simp add: sent Receive_str_def)
  from Receive_loop_loopback_overshoots [OF assms _ this] show False
    by simp
qed

text \<open>
  C1. The claim is that a Send followed by the bulk Receive on the peer leaves exactly
  the bytes sent in the receiving buffer. The code does otherwise. On the connected
  pair, the two bytes \<^verbatim>\<open>hi\<close> are sent from descriptor 3 and received on descriptor 4
  into an empty buffer: the read returns 2, and the buffer then holds \<^verbatim>\<open>hi\<close> followed
  by 125 zero bytes, the rest of the chunk vector.
\<close>

theorem Receive_str_pads_short_payload:
  "Option.bind
     (Send_str linux_le loopback_send (Socket_wrap fd_a) ''hi'' SendFlags_NONE
        \<lparr>rx_a = [], rx_b = []\<rparr>)
     (\<lambda>(sent, w). Receive_str linux_le loopback_recv (Socket_wrap fd_b) [] ReceiveFlags_NONE w)
   = Some ((2, ''hi'' @ replicate 125 (CHR 0x00)), \<lparr>rx_a = [], rx_b = []\<rparr>)"
  unfolding Receive_str_def
  apply (subst Receive_loop.simps)
  apply (simp add: Send_str_def Send_ptr_def loopback_send_def Receive_ptr_def loopback_recv_def
      Socket_wrap_def fd_a_def fd_b_def linux_le_def overwrite_def int_of_SendFlags_def
      int_of_ReceiveFlags_def)
  done

end
